theory Spec2Isabelle
  imports Main
begin

section \<open>The video mapper: data model\<close>

text \<open>
  The model follows \<^verbatim>\<open>video-mapper.go\<close>. A Go \<^verbatim>\<open>string\<close> is a sequence of bytes, so it
  is a \<^typ>\<open>string\<close> here (a list of 8-bit characters). The four constants of the source keep
  their spelling.
\<close>

definition videoContentUriBase :: string where
  \<open>videoContentUriBase = ''http://video-mapper-iw-uk-p.svc.ft.com/video/model/''\<close>

definition brigthcoveAuthority :: string where
  \<open>brigthcoveAuthority = ''http://api.ft.com/system/BRIGHTCOVE''\<close>

definition viodeMediaTypeBase :: string where
  \<open>viodeMediaTypeBase = ''video/''\<close>

definition brightcoveOrigin :: string where
  \<open>brightcoveOrigin = ''http://cmdb.ft.com/systems/brightcove''\<close>

record "identifier" =
  Authority :: string
  IdentifierValue :: string

record payload =
  UUID :: string
  Identifiers :: "identifier list"
  PublishedDate :: string
  MediaType :: string
  PublishReference :: string
  LastModified :: string

record publicationEvent =
  ContentUri :: string
  Payload :: string
  LastModified :: string

text \<open>
  The receiver of the methods: two pointers to the broker client, which no method of the
  mapping path dereferences. Their types are left open.
\<close>

record ('c, 'p) videoMapper =
  messageConsumer :: 'c
  messageProducer :: 'p

text \<open>
  A value of Go's \<^verbatim>\<open>interface{}\<close> as \<^verbatim>\<open>encoding/json\<close> produces it: nil, a bool, a
  number (kept as its literal text, since the mapper never computes with one), a string, a
  slice, or a nested object (its members in document order). The record handed to the mapper
  is a Go map, \<^verbatim>\<open>map[string]interface{}\<close>: a partial function from keys to such values.
\<close>

datatype jvalue =
    JNull
  | JBool bool
  | JNumber string
  | JString string
  | JArray "jvalue list"
  | JObject "(string \<times> jvalue) list"

type_synonym brightcoveVideo = "string \<rightharpoonup> jvalue"

text \<open>
  How a call ends: a run-time panic, an error value returned to the caller, or a result.
\<close>

datatype 'a outcome = Panicked | Failed string | Returned 'a

text \<open>
  The loggers are globals of the package; a call of \<^verbatim>\<open>Printf\<close> is recorded with its logger,
  its format string and its arguments, unrendered.
\<close>

datatype logger = infoLogger | warnLogger | errorLogger

datatype logarg = StrArg string | BytesArg string | PayloadArg payload | EventArg publicationEvent

type_synonym logcall = "logger \<times> string \<times> logarg list"

section \<open>Library functions the mapper calls\<close>

subsection \<open>Type assertion on a map element\<close>

text \<open>
  \<^verbatim>\<open>m[k].(string)\<close>: indexing a map with a missing key gives the nil interface, and the
  one-result type assertion panics on everything that is not a string, nil included.
  \<^const>\<open>None\<close> stands for the panic.
\<close>

definition assert_string :: "jvalue option \<Rightarrow> string option" where
  "assert_string x = (case x of Some (JString s) \<Rightarrow> Some s | _ \<Rightarrow> None)"

subsection \<open>\<^verbatim>\<open>filepath.Ext\<close> and \<^verbatim>\<open>strings.TrimPrefix\<close>\<close>

text \<open>
  \<^verbatim>\<open>filepath.Ext\<close> walks the path backwards from its last byte, stops at a path separator
  (\<^verbatim>\<open>/\<close> on the Unix build) and returns the suffix starting at the first dot it meets; it
  returns the empty string if it meets none. \<open>ext_scan\<close> takes the bytes still to be visited,
  reversed, and the bytes already passed.
\<close>

definition IsPathSeparator :: "char \<Rightarrow> bool" where
  "IsPathSeparator c = (c = CHR ''/'')"

fun ext_scan :: "string \<Rightarrow> string \<Rightarrow> string" where
  "ext_scan [] seen = []"
| "ext_scan (c # todo) seen =
     (if IsPathSeparator c then []
      else if c = CHR ''.'' then c # seen
      else ext_scan todo (c # seen))"

definition Ext :: "string \<Rightarrow> string" where
  "Ext path = ext_scan (rev path) []"

definition TrimPrefix :: "string \<Rightarrow> string \<Rightarrow> string" where
  "TrimPrefix s prefix =
     (if take (length prefix) s = prefix then drop (length prefix) s else s)"

subsection \<open>\<^verbatim>\<open>json.Marshal\<close> on the two structs\<close>

text \<open>
  \<^verbatim>\<open>utf8.DecodeRuneInString\<close>, as far as the encoder needs it: the number of bytes of the
  well-formed UTF-8 sequence at the head of the input, or \<^const>\<open>None\<close> where Go reports
  \<^verbatim>\<open>RuneError\<close> with width 1. As in Go's table, the first byte fixes the range accepted
  for the second byte and how many continuation bytes (\<^verbatim>\<open>80\<close> to \<^verbatim>\<open>BF\<close>) follow it.
\<close>

definition between :: "nat \<Rightarrow> nat \<Rightarrow> char \<Rightarrow> bool" where
  "between lo hi c = (lo \<le> of_char c \<and> of_char c \<le> hi)"

fun continuation :: "nat \<Rightarrow> string \<Rightarrow> bool" where
  "continuation 0 cs = True"
| "continuation (Suc n) [] = False"
| "continuation (Suc n) (c # cs) = (between 0x80 0xBF c \<and> continuation n cs)"

definition second_then :: "nat \<Rightarrow> nat \<Rightarrow> nat \<Rightarrow> string \<Rightarrow> bool" where
  "second_then lo hi n cs =
     (case cs of [] \<Rightarrow> False | c # cs' \<Rightarrow> between lo hi c \<and> continuation n cs')"

definition lead :: "char \<Rightarrow> (nat \<times> nat \<times> nat) option" where
  "lead c =
     (if between 0xC2 0xDF c then Some (0x80, 0xBF, 0)
      else if between 0xE0 0xE0 c then Some (0xA0, 0xBF, 1)
      else if between 0xE1 0xEC c then Some (0x80, 0xBF, 1)
      else if between 0xED 0xED c then Some (0x80, 0x9F, 1)
      else if between 0xEE 0xEF c then Some (0x80, 0xBF, 1)
      else if between 0xF0 0xF0 c then Some (0x90, 0xBF, 2)
      else if between 0xF1 0xF3 c then Some (0x80, 0xBF, 2)
      else if between 0xF4 0xF4 c then Some (0x80, 0x8F, 2)
      else None)"

definition rune_size :: "char \<Rightarrow> string \<Rightarrow> nat option" where
  "rune_size c cs =
     (if between 0x00 0x7F c then Some 1
      else
        (case lead c of
           None \<Rightarrow> None
         | Some (lo, hi, k) \<Rightarrow> if second_then lo hi k cs then Some (k + 2) else None))"

text \<open>
  The string encoder of \<^verbatim>\<open>encoding/json\<close> with HTML escaping on, which is what
  \<^verbatim>\<open>json.Marshal\<close> uses. A byte below \<^verbatim>\<open>0x80\<close> is copied if it is printable and none of
  \<^verbatim>\<open>\ " < > &\<close>; otherwise it is escaped, with a short escape for \<^verbatim>\<open>\ " \n \r \t\<close> and
  \<^verbatim>\<open>\u00XX\<close> for the rest. A byte that starts no well-formed UTF-8 sequence becomes
  the escape of U+FFFD; U+2028 and U+2029 (\<^verbatim>\<open>E2 80 A8\<close> and \<^verbatim>\<open>E2 80 A9\<close>) are
  escaped; every other well-formed sequence is copied. (Go releases from 1.22 on write
  backspace and form feed as \<^verbatim>\<open>\b\<close> and \<^verbatim>\<open>\f\<close>; the decoder reads both forms alike.)
\<close>

definition backslash :: char where
  "backslash = CHR 0x5C"

definition dquote :: char where
  "dquote = CHR 0x22"

definition hex :: "nat \<Rightarrow> char" where
  "hex n = ''0123456789abcdef'' ! n"

definition htmlSafe :: "char \<Rightarrow> bool" where
  "htmlSafe c = (0x20 \<le> (of_char c :: nat) \<and> c \<noteq> backslash \<and> c \<noteq> dquote
                  \<and> c \<noteq> CHR ''<'' \<and> c \<noteq> CHR ''>'' \<and> c \<noteq> CHR ''&'')"

definition escape :: "char \<Rightarrow> string" where
  "escape c =
     (if c = backslash \<or> c = dquote then [backslash, c]
      else if c = CHR 0x0A then [backslash, CHR ''n'']
      else if c = CHR 0x0D then [backslash, CHR ''r'']
      else if c = CHR 0x09 then [backslash, CHR ''t'']
      else [backslash, CHR ''u'', CHR ''0'', CHR ''0'',
            hex (of_char c div 16), hex (of_char c mod 16)])"

fun encode_chars :: "string \<Rightarrow> string" where
  "encode_chars [] = []"
| "encode_chars (c # cs) =
     (if (of_char c :: nat) < 0x80 then
        (if htmlSafe c then [c] else escape c) @ encode_chars cs
      else
        (case rune_size c cs of
           None \<Rightarrow> backslash # ''ufffd'' @ encode_chars cs
         | Some n \<Rightarrow>
             (if c # take (n - 1) cs = [CHR 0xE2, CHR 0x80, CHR 0xA8] then backslash # ''u2028''
              else if c # take (n - 1) cs = [CHR 0xE2, CHR 0x80, CHR 0xA9] then backslash # ''u2029''
              else c # take (n - 1) cs)
             @ encode_chars (drop (n - 1) cs)))"

definition encode_string :: "string \<Rightarrow> string" where
  "encode_string s = dquote # encode_chars s @ [dquote]"

text \<open>
  What the encoder makes of a string's content, read back: \<^verbatim>\<open>json.Marshal\<close> coerces a
  string to valid UTF-8, each byte that starts no well-formed sequence giving way to U+FFFD
  (\<^verbatim>\<open>EF BF BD\<close>).
\<close>

fun coerce_utf8 :: "string \<Rightarrow> string" where
  "coerce_utf8 [] = []"
| "coerce_utf8 (c # cs) =
     (if (of_char c :: nat) < 0x80 then c # coerce_utf8 cs
      else
        (case rune_size c cs of
           None \<Rightarrow> [CHR 0xEF, CHR 0xBF, CHR 0xBD] @ coerce_utf8 cs
         | Some n \<Rightarrow> (c # take (n - 1) cs) @ coerce_utf8 (drop (n - 1) cs)))"

text \<open>
  A struct is written as an object with its fields in declaration order under their
  \<^verbatim>\<open>json\<close> tags, a slice as an array. (A list cannot tell Go's nil slice, written
  \<^verbatim>\<open>null\<close>, from an empty one; the mapper builds neither.)
\<close>

definition encode_identifier :: "identifier \<Rightarrow> string" where
  \<open>encode_identifier i =
     ''{"authority":'' @ encode_string (Authority i)
     @ '',"identifierValue":'' @ encode_string (IdentifierValue i) @ ''}''\<close>

fun encode_elements :: "identifier list \<Rightarrow> string" where
  "encode_elements [] = []"
| "encode_elements [i] = encode_identifier i"
| "encode_elements (i # is) = encode_identifier i @ '','' @ encode_elements is"

definition encode_identifiers :: "identifier list \<Rightarrow> string" where
  "encode_identifiers is = ''['' @ encode_elements is @ '']''"

definition encode_payload :: "payload \<Rightarrow> string" where
  \<open>encode_payload p =
     ''{"uuid":'' @ encode_string (UUID p)
     @ '',"identifiers":'' @ encode_identifiers (Identifiers p)
     @ '',"publishedDate":'' @ encode_string (PublishedDate p)
     @ '',"mediaType":'' @ encode_string (MediaType p)
     @ '',"publishReference":'' @ encode_string (PublishReference p)
     @ '',"lastModified":'' @ encode_string (payload.LastModified p) @ ''}''\<close>

definition encode_event :: "publicationEvent \<Rightarrow> string" where
  \<open>encode_event e =
     ''{"contentUri":'' @ encode_string (ContentUri e)
     @ '',"payload":'' @ encode_string (Payload e)
     @ '',"lastModified":'' @ encode_string (publicationEvent.LastModified e) @ ''}''\<close>

text \<open>
  \<^verbatim>\<open>json.Marshal\<close> returns the bytes and an error. On a struct whose fields are strings and
  slices of such structs no encoder step can fail, so the error is always nil; the result
  type keeps the error all the same, as the callers test it.
\<close>

definition Marshal_payload :: "payload \<Rightarrow> string + string" where
  "Marshal_payload p = Inr (encode_payload p)"

definition Marshal_event :: "publicationEvent \<Rightarrow> string + string" where
  "Marshal_event e = Inr (encode_event e)"

subsection \<open>\<^verbatim>\<open>json.Unmarshal\<close> and \<^verbatim>\<open>Decoder.Decode\<close>\<close>

text \<open>
  The decoder of \<^verbatim>\<open>encoding/json\<close>, which the two adapters run on the inbound body and
  which a consumer of the event runs on the output. First the content of a string literal.
  \<open>getu4\<close> reads a \<^verbatim>\<open>\uXXXX\<close> escape at the head of its input; Go returns -1 where this
  gives \<^const>\<open>None\<close>.
\<close>

definition hexval :: "char \<Rightarrow> nat option" where
  "hexval c =
     (if between 0x30 0x39 c then Some (of_char c - 0x30)
      else if between 0x61 0x66 c then Some (of_char c - 0x61 + 10)
      else if between 0x41 0x46 c then Some (of_char c - 0x41 + 10)
      else None)"

fun getu4 :: "string \<Rightarrow> nat option" where
  "getu4 (b # u # h1 # h2 # h3 # h4 # rest) =
     (if b = backslash \<and> u = CHR ''u'' then
        (case (hexval h1, hexval h2, hexval h3, hexval h4) of
           (Some d1, Some d2, Some d3, Some d4) \<Rightarrow> Some (((d1 * 16 + d2) * 16 + d3) * 16 + d4)
         | _ \<Rightarrow> None)
      else None)"
| "getu4 _ = None"

text \<open>
  \<^verbatim>\<open>unicode.ReplacementChar\<close>, \<^verbatim>\<open>utf16.IsSurrogate\<close>, \<^verbatim>\<open>utf16.DecodeRune\<close> on a first half
  and what \<open>getu4\<close> found behind it, and \<^verbatim>\<open>utf8.EncodeRune\<close>.
\<close>

definition replacement :: nat where
  "replacement = 0xFFFD"

definition IsSurrogate :: "nat \<Rightarrow> bool" where
  "IsSurrogate r = (0xD800 \<le> r \<and> r < 0xE000)"

definition DecodeRune16 :: "nat \<Rightarrow> nat option \<Rightarrow> nat" where
  "DecodeRune16 r1 r2 =
     (case r2 of
        None \<Rightarrow> replacement
      | Some r2' \<Rightarrow>
          if 0xD800 \<le> r1 \<and> r1 < 0xDC00 \<and> 0xDC00 \<le> r2' \<and> r2' < 0xE000
          then (r1 - 0xD800) * 0x400 + (r2' - 0xDC00) + 0x10000
          else replacement)"

definition EncodeRune :: "nat \<Rightarrow> string" where
  "EncodeRune r =
     (if r < 0x80 then [char_of r]
      else if r < 0x800 then [char_of (0xC0 + r div 64), char_of (0x80 + r mod 64)]
      else if IsSurrogate r \<or> 0x10FFFF < r then [CHR 0xEF, CHR 0xBF, CHR 0xBD]
      else if r < 0x10000 then
        [char_of (0xE0 + r div 4096), char_of (0x80 + r div 64 mod 64), char_of (0x80 + r mod 64)]
      else
        [char_of (0xF0 + r div 262144), char_of (0x80 + r div 4096 mod 64),
         char_of (0x80 + r div 64 mod 64), char_of (0x80 + r mod 64)])"

text \<open>
  \<open>unquote_chars\<close> reads a string literal from behind its opening quote up to the closing
  one and returns the decoded bytes with the input left over. The scanner's checks (no
  control character, only the escapes of JSON) and the decoding of \<^verbatim>\<open>unquote\<close> are one
  pass here: a surrogate escape consumes a following escape only if the two form a pair and
  is U+FFFD otherwise, a byte that starts no well-formed UTF-8 sequence is replaced by U+FFFD.
\<close>

definition unescape :: "char \<Rightarrow> char option" where
  "unescape e =
     (if e = dquote \<or> e = backslash \<or> e = CHR ''/'' then Some e
      else if e = CHR ''b'' then Some (CHR 0x08)
      else if e = CHR ''f'' then Some (CHR 0x0C)
      else if e = CHR ''n'' then Some (CHR 0x0A)
      else if e = CHR ''r'' then Some (CHR 0x0D)
      else if e = CHR ''t'' then Some (CHR 0x09)
      else None)"

definition prepend :: "string \<Rightarrow> (string \<times> string) option \<Rightarrow> (string \<times> string) option" where
  "prepend xs r = (case r of None \<Rightarrow> None | Some (s, rest) \<Rightarrow> Some (xs @ s, rest))"

fun unquote_chars :: "string \<Rightarrow> (string \<times> string) option" where
  "unquote_chars [] = None"
| "unquote_chars (c # cs) =
     (if c = dquote then Some ([], cs)
      else if c = backslash then
        (case cs of
           [] \<Rightarrow> None
         | e # cs' \<Rightarrow>
             if e = CHR ''u'' then
               (case getu4 (c # cs) of
                  None \<Rightarrow> None
                | Some rr \<Rightarrow>
                    if IsSurrogate rr then
                      (if DecodeRune16 rr (getu4 (drop 5 cs)) \<noteq> replacement
                       then prepend (EncodeRune (DecodeRune16 rr (getu4 (drop 5 cs))))
                              (unquote_chars (drop 11 cs))
                       else prepend (EncodeRune replacement) (unquote_chars (drop 5 cs)))
                    else prepend (EncodeRune rr) (unquote_chars (drop 5 cs)))
             else
               (case unescape e of
                  None \<Rightarrow> None
                | Some d \<Rightarrow> prepend [d] (unquote_chars cs')))
      else if (of_char c :: nat) < 0x20 then None
      else if (of_char c :: nat) < 0x80 then prepend [c] (unquote_chars cs)
      else
        (case rune_size c cs of
           None \<Rightarrow> prepend (EncodeRune replacement) (unquote_chars cs)
         | Some n \<Rightarrow> prepend (c # take (n - 1) cs) (unquote_chars (drop (n - 1) cs))))"

text \<open>
  White space, and the number literals of JSON: an optional minus, an integer part without
  leading zero, an optional fraction, an optional exponent. A number is kept as its literal.
  (Go converts it to a \<^verbatim>\<open>float64\<close> when it decodes into an interface value and rejects a
  literal beyond that range; the model accepts it. The mapper panics on a number in any
  field it reads and ignores every other field, so the difference shows only in whether
  a record with such a literal in an unread field is refused at decoding.)
\<close>

definition isSpace :: "char \<Rightarrow> bool" where
  "isSpace c = (c = CHR '' '' \<or> c = CHR 0x09 \<or> c = CHR 0x0D \<or> c = CHR 0x0A)"

definition skip_ws :: "string \<Rightarrow> string" where
  "skip_ws s = dropWhile isSpace s"

definition isDigit :: "char \<Rightarrow> bool" where
  "isDigit c = between 0x30 0x39 c"

definition scan_int :: "string \<Rightarrow> (string \<times> string) option" where
  "scan_int s =
     (case s of
        [] \<Rightarrow> None
      | d # ds \<Rightarrow>
          if d = CHR ''0'' then Some ([d], ds)
          else if between 0x31 0x39 d then Some (d # takeWhile isDigit ds, dropWhile isDigit ds)
          else None)"

definition scan_frac :: "string \<Rightarrow> (string \<times> string) option" where
  "scan_frac s =
     (case s of
        [] \<Rightarrow> Some ([], s)
      | d # ds \<Rightarrow>
          if d = CHR ''.'' then
            (if takeWhile isDigit ds = [] then None
             else Some (d # takeWhile isDigit ds, dropWhile isDigit ds))
          else Some ([], s))"

definition scan_sign :: "string \<Rightarrow> string \<times> string" where
  "scan_sign s =
     (case s of
        [] \<Rightarrow> ([], s)
      | c # cs \<Rightarrow> if c = CHR ''+'' \<or> c = CHR ''-'' then ([c], cs) else ([], s))"

definition scan_exp :: "string \<Rightarrow> (string \<times> string) option" where
  "scan_exp s =
     (case s of
        [] \<Rightarrow> Some ([], s)
      | e # es \<Rightarrow>
          if e = CHR ''e'' \<or> e = CHR ''E'' then
            (case scan_sign es of
               (sg, ds) \<Rightarrow>
                 if takeWhile isDigit ds = [] then None
                 else Some (e # sg @ takeWhile isDigit ds, dropWhile isDigit ds))
          else Some ([], s))"

definition scan_number :: "string \<Rightarrow> (string \<times> string) option" where
  "scan_number s =
     (case (case s of [] \<Rightarrow> ([], s) | c # cs \<Rightarrow> if c = CHR ''-'' then ([c], cs) else ([], s)) of
        (sg, s0) \<Rightarrow>
     (case scan_int s0 of
        None \<Rightarrow> None
      | Some (i, s1) \<Rightarrow>
     (case scan_frac s1 of
        None \<Rightarrow> None
      | Some (f, s2) \<Rightarrow>
     (case scan_exp s2 of
        None \<Rightarrow> None
      | Some (e, s3) \<Rightarrow> Some (sg @ i @ f @ e, s3)))))"

text \<open>
  The parser proper. Like Go's scanner it runs over the input once with a stack of the
  containers that are open: an array with the elements read so far, or an object with its
  members so far and the key whose value is being read. \<open>value_at\<close> expects a value,
  \<open>key_at\<close> a member of an object, \<open>after_value\<close> what may follow a complete value. With
  the stack empty the value is the whole result, returned with the input behind it.
  Every call is on a shorter input, which the three lemmas below provide for the
  termination proof. (Go also refuses nesting deeper than 10000 levels.)
\<close>

datatype frame =
    InArray "jvalue list"
  | InObject "(string \<times> jvalue) list" string

lemma skip_ws_Cons_shorter: "skip_ws s = c # cs \<Longrightarrow> length cs < length s"
proof -
  assume "skip_ws s = c # cs"
  then have "length (c # cs) \<le> length s"
    unfolding skip_ws_def by (metis length_dropWhile_le)
  then show ?thesis by simp
qed

lemma prepend_Some:
  "prepend xs r = Some (s, rest) \<Longrightarrow> \<exists>s'. r = Some (s', rest)"
  by (auto simp: prepend_def split: option.splits)

lemma unquote_chars_shorter:
  "unquote_chars s = Some (str, rest) \<Longrightarrow> length rest < length s"
proof (induction s arbitrary: str rule: unquote_chars.induct)
  case 1
  then show ?case by simp
next
  case (2 c cs)
  show ?case
  proof (cases "c = dquote")
    case True
    with "2.prems" show ?thesis by simp
  next
    case nq: False
    show ?thesis
    proof (cases "c = backslash")
      case bs: True
      show ?thesis
      proof (cases cs)
        case Nil
        with "2.prems" nq bs show ?thesis by simp
      next
        case (Cons e cs')
        show ?thesis
        proof (cases "e = CHR ''u''")
          case eu: True
          show ?thesis
          proof (cases "getu4 (c # cs)")
            case None
            with "2.prems" nq bs Cons eu show ?thesis by simp
          next
            case (Some rr)
            show ?thesis
            proof (cases "IsSurrogate rr")
              case sur: True
              show ?thesis
              proof (cases "DecodeRune16 rr (getu4 (drop 5 cs)) \<noteq> replacement")
                case True
                with "2.prems" nq bs Cons eu Some sur
                obtain s' where "unquote_chars (drop 11 cs) = Some (s', rest)"
                  by (auto dest: prepend_Some)
                from "2.IH"(1) [OF nq bs Cons eu Some sur True this]
                show ?thesis by simp
              next
                case False
                with "2.prems" nq bs Cons eu Some sur
                obtain s' where "unquote_chars (drop 5 cs) = Some (s', rest)"
                  by (auto dest: prepend_Some)
                from "2.IH"(2) [OF nq bs Cons eu Some sur False this]
                show ?thesis by simp
              qed
            next
              case False
              with "2.prems" nq bs Cons eu Some
              obtain s' where "unquote_chars (drop 5 cs) = Some (s', rest)"
                by (auto dest: prepend_Some)
              from "2.IH"(3) [OF nq bs Cons eu Some False this]
              show ?thesis by simp
            qed
          qed
        next
          case neu: False
          show ?thesis
          proof (cases "unescape e")
            case None
            with "2.prems" nq bs Cons neu show ?thesis by simp
          next
            case (Some d)
            with "2.prems" nq bs Cons neu
            obtain s' where "unquote_chars cs' = Some (s', rest)"
              by (auto dest: prepend_Some)
            from "2.IH"(4) [OF nq bs Cons neu Some this] Cons
            show ?thesis by simp
          qed
        qed
      qed
    next
      case nbs: False
      show ?thesis
      proof (cases "(of_char c :: nat) < 0x20")
        case True
        with "2.prems" nq nbs show ?thesis by simp
      next
        case nctl: False
        show ?thesis
        proof (cases "(of_char c :: nat) < 0x80")
          case True
          with "2.prems" nq nbs nctl
          obtain s' where "unquote_chars cs = Some (s', rest)"
            by (auto dest: prepend_Some)
          from "2.IH"(5) [OF nq nbs nctl True this]
          show ?thesis by simp
        next
          case nasc: False
          show ?thesis
          proof (cases "rune_size c cs")
            case None
            with "2.prems" nq nbs nctl nasc
            obtain s' where "unquote_chars cs = Some (s', rest)"
              by (auto dest: prepend_Some)
            from "2.IH"(6) [OF nq nbs nctl nasc None this]
            show ?thesis by simp
          next
            case (Some n)
            with "2.prems" nq nbs nctl nasc
            obtain s' where "unquote_chars (drop (n - 1) cs) = Some (s', rest)"
              by (auto dest: prepend_Some)
            from "2.IH"(7) [OF nq nbs nctl nasc Some this]
            show ?thesis by simp
          qed
        qed
      qed
    qed
  qed
qed

lemma scan_int_split: "scan_int s = Some (lit, rest) \<Longrightarrow> s = lit @ rest \<and> lit \<noteq> []"
  by (auto simp: scan_int_def split: list.splits if_splits)

lemma scan_frac_split: "scan_frac s = Some (lit, rest) \<Longrightarrow> s = lit @ rest"
  by (auto simp: scan_frac_def split: list.splits if_splits)

lemma scan_sign_split: "scan_sign s = (lit, rest) \<Longrightarrow> s = lit @ rest"
  by (auto simp: scan_sign_def split: list.splits if_splits)

lemma scan_exp_split: "scan_exp s = Some (lit, rest) \<Longrightarrow> s = lit @ rest"
  by (auto simp: scan_exp_def split: list.splits if_splits prod.splits dest!: scan_sign_split)

lemma scan_number_split:
  "scan_number s = Some (lit, rest) \<Longrightarrow> s = lit @ rest \<and> lit \<noteq> []"
  by (auto simp: scan_number_def split: list.splits if_splits option.splits prod.splits
      dest!: scan_int_split scan_frac_split scan_exp_split)

lemma scan_number_shorter:
  "scan_number s = Some (lit, rest) \<Longrightarrow> length rest < length s"
  by (drule scan_number_split) (cases lit, auto)

function value_at :: "frame list \<Rightarrow> string \<Rightarrow> (jvalue \<times> string) option"
  and key_at :: "(string \<times> jvalue) list \<Rightarrow> frame list \<Rightarrow> string \<Rightarrow> (jvalue \<times> string) option"
  and after_value :: "jvalue \<Rightarrow> frame list \<Rightarrow> string \<Rightarrow> (jvalue \<times> string) option"
where
  "value_at st s =
     (case skip_ws s of
        [] \<Rightarrow> None
      | c # cs \<Rightarrow>
          if c = CHR ''{'' then
            (case skip_ws cs of
               [] \<Rightarrow> None
             | c' # cs' \<Rightarrow>
                 if c' = CHR ''}'' then after_value (JObject []) st cs'
                 else key_at [] st cs)
          else if c = CHR ''['' then
            (case skip_ws cs of
               [] \<Rightarrow> None
             | c' # cs' \<Rightarrow>
                 if c' = CHR '']'' then after_value (JArray []) st cs'
                 else value_at (InArray [] # st) cs)
          else if c = dquote then
            (case unquote_chars cs of
               None \<Rightarrow> None
             | Some (str, rest) \<Rightarrow> after_value (JString str) st rest)
          else if c = CHR ''t'' then
            (if take 3 cs = ''rue'' then after_value (JBool True) st (drop 3 cs) else None)
          else if c = CHR ''f'' then
            (if take 4 cs = ''alse'' then after_value (JBool False) st (drop 4 cs) else None)
          else if c = CHR ''n'' then
            (if take 3 cs = ''ull'' then after_value JNull st (drop 3 cs) else None)
          else
            (case scan_number (c # cs) of
               None \<Rightarrow> None
             | Some (lit, rest) \<Rightarrow> after_value (JNumber lit) st rest))"
| "key_at ms st s =
     (case skip_ws s of
        [] \<Rightarrow> None
      | c # cs \<Rightarrow>
          if c = dquote then
            (case unquote_chars cs of
               None \<Rightarrow> None
             | Some (k, rest) \<Rightarrow>
                 (case skip_ws rest of
                    [] \<Rightarrow> None
                  | c' # cs' \<Rightarrow>
                      if c' = CHR '':'' then value_at (InObject ms k # st) cs' else None))
          else None)"
| "after_value v [] s = Some (v, s)"
| "after_value v (InArray vs # st) s =
     (case skip_ws s of
        [] \<Rightarrow> None
      | c # cs \<Rightarrow>
          if c = CHR '','' then value_at (InArray (vs @ [v]) # st) cs
          else if c = CHR '']'' then after_value (JArray (vs @ [v])) st cs
          else None)"
| "after_value v (InObject ms k # st) s =
     (case skip_ws s of
        [] \<Rightarrow> None
      | c # cs \<Rightarrow>
          if c = CHR '','' then key_at (ms @ [(k, v)]) st cs
          else if c = CHR ''}'' then after_value (JObject (ms @ [(k, v)])) st cs
          else None)"
  by pat_completeness auto
termination
proof (relation "measure (\<lambda>x. case x of
          Inl (st, s) \<Rightarrow> length s
        | Inr (Inl (ms, st, s)) \<Rightarrow> length s
        | Inr (Inr (v, st, s)) \<Rightarrow> length s)", goal_cases)
  case 1
  show ?case by simp
qed (auto dest!: skip_ws_Cons_shorter unquote_chars_shorter scan_number_shorter)

text \<open>
  \<^verbatim>\<open>json.Unmarshal\<close> first checks that its input is one value with nothing but white space
  behind it.
\<close>

definition parse_document :: "string \<Rightarrow> jvalue option" where
  "parse_document s =
     (case value_at [] s of
        None \<Rightarrow> None
      | Some (v, rest) \<Rightarrow> if skip_ws rest = [] then Some v else None)"

text \<open>
  Decoding into a struct: each member of the object, in order, is stored in the field
  whose \<^verbatim>\<open>json\<close> name equals its key up to the case of letters; Go's folding also lets
  the Kelvin sign (\<^verbatim>\<open>E2 84 AA\<close>) stand for a \<^verbatim>\<open>k\<close> and the long s (\<^verbatim>\<open>C5 BF\<close>) for an \<^verbatim>\<open>s\<close>.
  Members with other keys are skipped, \<^verbatim>\<open>null\<close> leaves a field as it is, and a value of
  the wrong kind is an error. An element of an array is decoded into the element the
  slice already has at that index, or into a zero one.
\<close>

definition caseMask :: "char \<Rightarrow> char" where
  "caseMask c = char_of ((of_char c :: nat) - (of_char c div 32 mod 2) * 32)"

fun equalFold :: "string \<Rightarrow> string \<Rightarrow> bool" where
  "equalFold [] t = (t = [])"
| "equalFold (sb # s) [] = False"
| "equalFold (sb # s) (tb # t) =
     (if (of_char tb :: nat) < 0x80 then
        (sb = tb \<or> (between 0x41 0x5A (caseMask sb) \<and> caseMask sb = caseMask tb))
        \<and> equalFold s t
      else if caseMask sb = CHR ''K'' then
        take 3 (tb # t) = [CHR 0xE2, CHR 0x84, CHR 0xAA] \<and> equalFold s (drop 2 t)
      else if caseMask sb = CHR ''S'' then
        take 2 (tb # t) = [CHR 0xC5, CHR 0xBF] \<and> equalFold s (drop 1 t)
      else False)"

definition into_string :: "jvalue \<Rightarrow> string \<Rightarrow> string option" where
  "into_string v cur = (case v of JString s \<Rightarrow> Some s | JNull \<Rightarrow> Some cur | _ \<Rightarrow> None)"

fun members_into_identifier :: "(string \<times> jvalue) list \<Rightarrow> identifier \<Rightarrow> identifier option" where
  "members_into_identifier [] i = Some i"
| "members_into_identifier ((k, v) # ms) i =
     (if equalFold ''authority'' k then
        (case into_string v (Authority i) of
           None \<Rightarrow> None
         | Some s \<Rightarrow> members_into_identifier ms (i\<lparr>Authority := s\<rparr>))
      else if equalFold ''identifierValue'' k then
        (case into_string v (IdentifierValue i) of
           None \<Rightarrow> None
         | Some s \<Rightarrow> members_into_identifier ms (i\<lparr>IdentifierValue := s\<rparr>))
      else members_into_identifier ms i)"

definition into_identifier :: "jvalue \<Rightarrow> identifier \<Rightarrow> identifier option" where
  "into_identifier v i =
     (case v of JObject ms \<Rightarrow> members_into_identifier ms i | JNull \<Rightarrow> Some i | _ \<Rightarrow> None)"

definition zero_identifier :: "identifier" where
  "zero_identifier = \<lparr>Authority = [], IdentifierValue = []\<rparr>"

fun elements_into_identifiers :: "jvalue list \<Rightarrow> identifier list \<Rightarrow> identifier list option" where
  "elements_into_identifiers [] cur = Some []"
| "elements_into_identifiers (v # vs) cur =
     (case into_identifier v (case cur of [] \<Rightarrow> zero_identifier | i # _ \<Rightarrow> i) of
        None \<Rightarrow> None
      | Some i' \<Rightarrow>
          (case elements_into_identifiers vs (tl cur) of
             None \<Rightarrow> None
           | Some is \<Rightarrow> Some (i' # is)))"

definition into_identifiers :: "jvalue \<Rightarrow> identifier list \<Rightarrow> identifier list option" where
  "into_identifiers v cur =
     (case v of JArray vs \<Rightarrow> elements_into_identifiers vs cur | JNull \<Rightarrow> Some cur | _ \<Rightarrow> None)"

fun members_into_payload :: "(string \<times> jvalue) list \<Rightarrow> payload \<Rightarrow> payload option" where
  "members_into_payload [] p = Some p"
| "members_into_payload ((k, v) # ms) p =
     (if equalFold ''uuid'' k then
        (case into_string v (UUID p) of
           None \<Rightarrow> None
         | Some s \<Rightarrow> members_into_payload ms (p\<lparr>UUID := s\<rparr>))
      else if equalFold ''identifiers'' k then
        (case into_identifiers v (Identifiers p) of
           None \<Rightarrow> None
         | Some is \<Rightarrow> members_into_payload ms (p\<lparr>Identifiers := is\<rparr>))
      else if equalFold ''publishedDate'' k then
        (case into_string v (PublishedDate p) of
           None \<Rightarrow> None
         | Some s \<Rightarrow> members_into_payload ms (p\<lparr>PublishedDate := s\<rparr>))
      else if equalFold ''mediaType'' k then
        (case into_string v (MediaType p) of
           None \<Rightarrow> None
         | Some s \<Rightarrow> members_into_payload ms (p\<lparr>MediaType := s\<rparr>))
      else if equalFold ''publishReference'' k then
        (case into_string v (PublishReference p) of
           None \<Rightarrow> None
         | Some s \<Rightarrow> members_into_payload ms (p\<lparr>PublishReference := s\<rparr>))
      else if equalFold ''lastModified'' k then
        (case into_string v (payload.LastModified p) of
           None \<Rightarrow> None
         | Some s \<Rightarrow> members_into_payload ms (p\<lparr>payload.LastModified := s\<rparr>))
      else members_into_payload ms p)"

definition zero_payload :: payload where
  "zero_payload = \<lparr>UUID = [], Identifiers = [], PublishedDate = [], MediaType = [],
                    PublishReference = [], payload.LastModified = []\<rparr>"

definition Unmarshal_payload :: "string \<Rightarrow> payload option" where
  "Unmarshal_payload s =
     (case parse_document s of
        Some (JObject ms) \<Rightarrow> members_into_payload ms zero_payload
      | Some JNull \<Rightarrow> Some zero_payload
      | _ \<Rightarrow> None)"

fun members_into_event :: "(string \<times> jvalue) list \<Rightarrow> publicationEvent \<Rightarrow> publicationEvent option" where
  "members_into_event [] e = Some e"
| "members_into_event ((k, v) # ms) e =
     (if equalFold ''contentUri'' k then
        (case into_string v (ContentUri e) of
           None \<Rightarrow> None
         | Some s \<Rightarrow> members_into_event ms (e\<lparr>ContentUri := s\<rparr>))
      else if equalFold ''payload'' k then
        (case into_string v (Payload e) of
           None \<Rightarrow> None
         | Some s \<Rightarrow> members_into_event ms (e\<lparr>Payload := s\<rparr>))
      else if equalFold ''lastModified'' k then
        (case into_string v (publicationEvent.LastModified e) of
           None \<Rightarrow> None
         | Some s \<Rightarrow> members_into_event ms (e\<lparr>publicationEvent.LastModified := s\<rparr>))
      else members_into_event ms e)"

definition zero_event :: publicationEvent where
  "zero_event = \<lparr>ContentUri = [], Payload = [], publicationEvent.LastModified = []\<rparr>"

definition Unmarshal_event :: "string \<Rightarrow> publicationEvent option" where
  "Unmarshal_event s =
     (case parse_document s of
        Some (JObject ms) \<Rightarrow> members_into_event ms zero_event
      | Some JNull \<Rightarrow> Some zero_event
      | _ \<Rightarrow> None)"

text \<open>
  Decoding into the \<^verbatim>\<open>map[string]interface{}\<close> of the adapters: an object gives the map
  of its members, a later member replacing an earlier one of the same key; \<^verbatim>\<open>null\<close>
  leaves the map nil, which reads like the empty map, and is no error; every other value is
  one. \<^verbatim>\<open>Decoder.Decode\<close>, used on the HTTP body, reads the first value of the stream and
  leaves what follows unread.
\<close>

definition into_map :: "jvalue \<Rightarrow> brightcoveVideo option" where
  "into_map v =
     (case v of JObject ms \<Rightarrow> Some (map_of (rev ms)) | JNull \<Rightarrow> Some Map.empty | _ \<Rightarrow> None)"

definition Unmarshal_map :: "string \<Rightarrow> brightcoveVideo option" where
  "Unmarshal_map s = (case parse_document s of None \<Rightarrow> None | Some v \<Rightarrow> into_map v)"

definition Decode_map :: "string \<Rightarrow> brightcoveVideo option" where
  "Decode_map s = (case value_at [] s of None \<Rightarrow> None | Some (v, rest) \<Rightarrow> into_map v)"

section \<open>The mapping function\<close>

text \<open>
  \<^verbatim>\<open>mapBrightcoveVideo\<close>, statement by statement. The result is the list of logger calls made
  and how the call ended.
\<close>

definition mapBrightcoveVideo ::
  "('c, 'p) videoMapper \<Rightarrow> brightcoveVideo \<Rightarrow> string \<Rightarrow> string \<Rightarrow> logcall list \<times> string outcome"
where
  "mapBrightcoveVideo v brightcoveVideo publishReference lastModified =
    (case assert_string (brightcoveVideo ''uuid'') of
       None \<Rightarrow> ([], Panicked)
     | Some uuid \<Rightarrow>
    let contentUri = videoContentUriBase @ uuid in
    if uuid = [] then
      ([], Failed ''uuid field of native brightcove video JSON is null. Skipping message.'')
    else
    (case assert_string (brightcoveVideo ''id'') of
       None \<Rightarrow> ([], Panicked)
     | Some id' \<Rightarrow>
    if id' = [] then
      ([], Failed ''id field of native brightcove video JSON is null. Skipping message.'')
    else
    (case assert_string (brightcoveVideo ''updated_at'') of
       None \<Rightarrow> ([], Panicked)
     | Some publishedDate \<Rightarrow>
    if publishedDate = [] then
      ([], Failed ''updated_at field of native brightcove video JSON is null. Skipping message.'')
    else
    (case assert_string (brightcoveVideo ''name'') of
       None \<Rightarrow> ([], Panicked)
     | Some fileName \<Rightarrow>
    let log1 = (if fileName = [] then
                  [(warnLogger,
                    ''filename field of native brightcove video JSON is null, type will be video/.'',
                    [])]
                else []);
        extension = TrimPrefix (Ext fileName) ''.'';
        mediaType = viodeMediaTypeBase @ extension;
        i = \<lparr>Authority = brigthcoveAuthority, IdentifierValue = id'\<rparr>;
        p = \<lparr>UUID = uuid, Identifiers = [i], PublishedDate = publishedDate,
             MediaType = mediaType, PublishReference = publishReference,
             payload.LastModified = lastModified\<rparr>
    in
    (case Marshal_payload p of
       Inl err \<Rightarrow>
         (log1 @ [(warnLogger, ''Couldn't marshall payload %v, skipping message.'', [PayloadArg p])],
          Failed err)
     | Inr marshalledPayload \<Rightarrow>
    let e = \<lparr>ContentUri = contentUri, Payload = marshalledPayload,
             publicationEvent.LastModified = lastModified\<rparr>
    in
    (case Marshal_event e of
       Inl err \<Rightarrow>
         (log1 @ [(warnLogger, ''Couldn't marshall event %v, skipping message.'', [EventArg e])],
          Failed err)
     | Inr marshalledEvent \<Rightarrow> (log1, Returned marshalledEvent)))))))"

section \<open>The two delivery adapters\<close>

text \<open>
  A message of the broker client, \<^verbatim>\<open>consumer.Message\<close>: headers and a body. Reading a key
  that a Go map of strings lacks gives the empty string. The methods return the effects they
  had: the logger calls, and the messages handed to the producer (the only call of
  \<^verbatim>\<open>SendMessage\<close> in \<^verbatim>\<open>consume\<close> is commented out in the source).
\<close>

record message =
  Headers :: "string \<rightharpoonup> string"
  Body :: string

definition header :: "(string \<rightharpoonup> string) \<Rightarrow> string \<Rightarrow> string" where
  "header h k = (case h k of None \<Rightarrow> [] | Some x \<Rightarrow> x)"

record effects =
  logged :: "logcall list"
  sent :: "(string \<times> message) list"

text \<open>
  The HTTP request as the handler reads it (\<^verbatim>\<open>Header.Get\<close> gives the first value of a
  header, or the empty string) and the \<^verbatim>\<open>http.ResponseWriter\<close>: the status written, if
  any, and the body. \<^verbatim>\<open>Write\<close> writes the status 200 first if none was written.
\<close>

record request =
  Header :: "string \<rightharpoonup> string"
  Body :: string

record response =
  status :: "nat option"
  body :: string

definition StatusOK :: nat where
  "StatusOK = 200"

definition StatusBadRequest :: nat where
  "StatusBadRequest = 400"

definition WriteHeader :: "nat \<Rightarrow> response \<Rightarrow> response" where
  "WriteHeader code w = (if status w = None then w\<lparr>status := Some code\<rparr> else w)"

definition Write :: "string \<Rightarrow> response \<Rightarrow> response" where
  "Write bytes w = (WriteHeader StatusOK w)\<lparr>body := body w @ bytes\<rparr>"

text \<open>\<^verbatim>\<open>mapMessage\<close>, \<^verbatim>\<open>consume\<close> and \<^verbatim>\<open>mapHandler\<close>, statement by statement.\<close>

definition mapMessage :: "('c, 'p) videoMapper \<Rightarrow> message \<Rightarrow> logcall list \<times> string outcome" where
  "mapMessage v m =
     (case Unmarshal_map (message.Body m) of
        None \<Rightarrow>
          ([], Failed (''Video JSON from Brightcove couldn't be unmarshalled. Skipping invalid JSON: ''
                       @ message.Body m))
      | Some brightcoveVideo \<Rightarrow>
     let publishReference = header (Headers m) ''X-Request-Id'' in
     if publishReference = [] then
       ([], Failed ''X-Request-Id not found in kafka message headers. Skipping message.'')
     else
     let lastModified = header (Headers m) ''Message-Timestamp'' in
     if lastModified = [] then
       ([], Failed ''Message-Timestamp not found in kafka message headers. Skipping message.'')
     else mapBrightcoveVideo v brightcoveVideo publishReference lastModified)"

definition consume :: "('c, 'p) videoMapper \<Rightarrow> message \<Rightarrow> effects \<times> unit outcome" where
  "consume v m =
     (if header (Headers m) ''Origin-System-Id'' \<noteq> brightcoveOrigin then
        (\<lparr>logged = [], sent = []\<rparr>, Returned ())
      else
        (case mapMessage v m of
           (logs, Panicked) \<Rightarrow> (\<lparr>logged = logs, sent = []\<rparr>, Panicked)
         | (logs, Failed err) \<Rightarrow>
             (\<lparr>logged = logs @ [(warnLogger, ''Mapping error: [%v]'', [StrArg err])], sent = []\<rparr>,
              Returned ())
         | (logs, Returned marshalledEvent) \<Rightarrow>
             (\<lparr>logged = logs @ [(infoLogger, ''Sending %v'', [BytesArg marshalledEvent])], sent = []\<rparr>,
              Returned ())))"

definition mapHandler ::
  "('c, 'p) videoMapper \<Rightarrow> response \<Rightarrow> request \<Rightarrow> logcall list \<times> response \<times> unit outcome"
where
  "mapHandler v w r =
     (case Decode_map (request.Body r) of
        None \<Rightarrow> ([], WriteHeader StatusBadRequest w, Returned ())
      | Some brightcoveVideo \<Rightarrow>
     let publishReference = header (Header r) ''X-Request-Id'' in
     if publishReference = [] then
       ([(warnLogger, ''X-Request-Id not found in kafka message headers. Skipping message.'', [])],
        w, Returned ())
     else
     let lastModified = header (Header r) ''Message-Timestamp'' in
     if lastModified = [] then
       ([(warnLogger, ''Message-Timestamp not found in kafka message headers. Skipping message.'', [])],
        w, Returned ())
     else
       (case mapBrightcoveVideo v brightcoveVideo publishReference lastModified of
          (logs, Panicked) \<Rightarrow> (logs, w, Panicked)
        | (logs, Failed err) \<Rightarrow> (logs, WriteHeader StatusBadRequest w, Returned ())
        | (logs, Returned mappedVideoBytes) \<Rightarrow> (logs, Write mappedVideoBytes w, Returned ())))"

text \<open>A receiver to run the methods on at concrete inputs.\<close>

definition aMapper :: "(unit, unit) videoMapper" where
  "aMapper = \<lparr>messageConsumer = (), messageProducer = ()\<rparr>"

definition freshResponse :: response where
  "freshResponse = \<lparr>status = None, body = []\<rparr>"

text \<open>The scenario of the specification: the record, and the payload and event expected.\<close>

definition scenarioRecord :: brightcoveVideo where
  "scenarioRecord =
     [''uuid'' \<mapsto> JString ''abc-1'', ''id'' \<mapsto> JString ''999'',
      ''updated_at'' \<mapsto> JString ''2020-01-01T00:00:00Z'', ''name'' \<mapsto> JString ''clip.mp4'']"

definition scenarioPayload :: payload where
  "scenarioPayload =
     \<lparr>UUID = ''abc-1'',
      Identifiers = [\<lparr>Authority = ''http://api.ft.com/system/BRIGHTCOVE'', IdentifierValue = ''999''\<rparr>],
      PublishedDate = ''2020-01-01T00:00:00Z'',
      MediaType = ''video/mp4'',
      PublishReference = ''req-1'',
      payload.LastModified = ''ts-1''\<rparr>"

definition scenarioPayloadText :: string where
  \<open>scenarioPayloadText =
     ''{"uuid":"abc-1","identifiers":[{"authority":"http://api.ft.com/system/BRIGHTCOVE","identifierValue":"999"}],"publishedDate":"2020-01-01T00:00:00Z","mediaType":"video/mp4","publishReference":"req-1","lastModified":"ts-1"}''\<close>

definition scenarioEvent :: publicationEvent where
  "scenarioEvent =
     \<lparr>ContentUri = ''http://video-mapper-iw-uk-p.svc.ft.com/video/model/abc-1'',
      Payload = scenarioPayloadText,
      publicationEvent.LastModified = ''ts-1''\<rparr>"

definition scenarioBody :: string where
  \<open>scenarioBody =
     ''{"uuid":"abc-1","id":"999","updated_at":"2020-01-01T00:00:00Z","name":"clip.mp4"}''\<close>

definition scenarioHeaders :: "string \<rightharpoonup> string" where
  "scenarioHeaders = [''X-Request-Id'' \<mapsto> ''req-1'', ''Message-Timestamp'' \<mapsto> ''ts-1'']"

section \<open>Properties of the mapping function\<close>

subsection \<open>The extension of a file name\<close>

lemma ext_scan_found:
  "CHR ''.'' \<notin> set xs \<Longrightarrow> CHR ''/'' \<notin> set xs \<Longrightarrow>
   ext_scan (xs @ CHR ''.'' # ys) seen = CHR ''.'' # rev xs @ seen"
  by (induction xs arbitrary: seen) (auto simp: IsPathSeparator_def)

lemma Ext_found:
  assumes "CHR ''.'' \<notin> set ext" and "CHR ''/'' \<notin> set ext"
  shows "Ext (stem @ CHR ''.'' # ext) = CHR ''.'' # ext"
  using ext_scan_found [of "rev ext" "rev stem" "[]"] assms by (simp add: Ext_def)

lemma TrimPrefix_dot: "TrimPrefix (CHR ''.'' # ext) ''.'' = ext"
  by (simp add: TrimPrefix_def)

subsection \<open>Required fields\<close>

text \<open>
  A required field that is the empty string is rejected with the error that names it,
  provided the fields read before it are non-empty strings.
\<close>

lemma empty_uuid_rejected:
  assumes "r ''uuid'' = Some (JString [])"
  shows "mapBrightcoveVideo v r publishReference lastModified =
    ([], Failed ''uuid field of native brightcove video JSON is null. Skipping message.'')"
  using assms by (simp add: mapBrightcoveVideo_def assert_string_def)

lemma empty_id_rejected:
  assumes "r ''uuid'' = Some (JString uuid)" and "uuid \<noteq> []"
    and "r ''id'' = Some (JString [])"
  shows "mapBrightcoveVideo v r publishReference lastModified =
    ([], Failed ''id field of native brightcove video JSON is null. Skipping message.'')"
  using assms by (simp add: mapBrightcoveVideo_def assert_string_def)

lemma empty_updated_at_rejected:
  assumes "r ''uuid'' = Some (JString uuid)" and "uuid \<noteq> []"
    and "r ''id'' = Some (JString ident)" and "ident \<noteq> []"
    and "r ''updated_at'' = Some (JString [])"
  shows "mapBrightcoveVideo v r publishReference lastModified =
    ([], Failed ''updated_at field of native brightcove video JSON is null. Skipping message.'')"
  using assms by (simp add: mapBrightcoveVideo_def assert_string_def)

text \<open>
  Claim C2 (the code departs from it). A record in which \<^verbatim>\<open>uuid\<close>, \<^verbatim>\<open>id\<close> or
  \<^verbatim>\<open>updated_at\<close> is absent or empty is to be rejected with an error naming the field,
  without a panic. The source tests each field against the empty string only after the
  unchecked assertion \<^verbatim>\<open>.(string)\<close>, and an absent key yields nil: on the record below,
  which has no \<^verbatim>\<open>uuid\<close>, the call panics at the first assertion and returns no error.
\<close>

theorem absent_uuid_panics:
  "mapBrightcoveVideo aMapper
     [''id'' \<mapsto> JString ''999'', ''updated_at'' \<mapsto> JString ''2020-01-01T00:00:00Z'',
      ''name'' \<mapsto> JString ''clip.mp4''] ''req-1'' ''ts-1'' = ([], Panicked)"
  by (simp add: mapBrightcoveVideo_def assert_string_def)

text \<open>
  Claim C3 (the code departs from it). A record that binds a required field to a value
  that is not a string is to be rejected with an error naming the field, without a crash.
  On the record below, whose \<^verbatim>\<open>uuid\<close> is the number 5, the unchecked assertion panics.
\<close>

theorem non_string_uuid_panics:
  "mapBrightcoveVideo aMapper
     [''uuid'' \<mapsto> JNumber ''5'', ''id'' \<mapsto> JString ''999'',
      ''updated_at'' \<mapsto> JString ''2020-01-01T00:00:00Z'',
      ''name'' \<mapsto> JString ''clip.mp4''] ''req-1'' ''ts-1'' = ([], Panicked)"
  by (simp add: mapBrightcoveVideo_def assert_string_def)

subsection \<open>The file name and the media type\<close>

text \<open>
  With the required fields valid and the name the empty string, the mapping succeeds with
  the media type \<^verbatim>\<open>video/\<close> and one warning.
\<close>

lemma empty_name_maps:
  assumes "r ''uuid'' = Some (JString uuid)" and "uuid \<noteq> []"
    and "r ''id'' = Some (JString ident)" and "ident \<noteq> []"
    and "r ''updated_at'' = Some (JString publishedDate)" and "publishedDate \<noteq> []"
    and "r ''name'' = Some (JString [])"
  shows "mapBrightcoveVideo v r publishReference lastModified =
    ([(warnLogger, ''filename field of native brightcove video JSON is null, type will be video/.'',
       [])],
     Returned (encode_event
       \<lparr>ContentUri = videoContentUriBase @ uuid,
        Payload = encode_payload
          \<lparr>UUID = uuid,
           Identifiers = [\<lparr>Authority = brigthcoveAuthority, IdentifierValue = ident\<rparr>],
           PublishedDate = publishedDate,
           MediaType = viodeMediaTypeBase,
           PublishReference = publishReference,
           payload.LastModified = lastModified\<rparr>,
        publicationEvent.LastModified = lastModified\<rparr>))"
  using assms
  by (simp add: mapBrightcoveVideo_def assert_string_def Ext_def TrimPrefix_def
      Marshal_payload_def Marshal_event_def)

text \<open>
  Claim C4 (the code departs from it). With valid required fields and the \<^verbatim>\<open>name\<close>
  absent or empty the mapping is to succeed with media type \<^verbatim>\<open>video/\<close>. On the record
  below, which has no \<^verbatim>\<open>name\<close>, the fourth unchecked assertion panics.
\<close>

theorem absent_name_panics:
  "mapBrightcoveVideo aMapper
     [''uuid'' \<mapsto> JString ''abc-1'', ''id'' \<mapsto> JString ''999'',
      ''updated_at'' \<mapsto> JString ''2020-01-01T00:00:00Z''] ''req-1'' ''ts-1'' = ([], Panicked)"
  by (simp add: mapBrightcoveVideo_def assert_string_def)

text \<open>
  Claim C5, as stated, fails: the media type is not always \<^verbatim>\<open>video/\<close> followed by what
  comes after the last dot of the name. \<^verbatim>\<open>filepath.Ext\<close> looks at the last path element
  only, so for the name \<^verbatim>\<open>a.b/c\<close>, whose last dot is followed by \<^verbatim>\<open>b/c\<close>, the media type
  is \<^verbatim>\<open>video/\<close> alone and not \<^verbatim>\<open>video/b/c\<close>.
\<close>

theorem media_type_after_separator_counterexample:
  "CHR ''.'' \<notin> set ''b/c'' \<and>
   mapBrightcoveVideo aMapper
     [''uuid'' \<mapsto> JString ''abc-1'', ''id'' \<mapsto> JString ''999'',
      ''updated_at'' \<mapsto> JString ''2020-01-01T00:00:00Z'',
      ''name'' \<mapsto> JString (''a'' @ CHR ''.'' # ''b/c'')] ''req-1'' ''ts-1''
   = ([], Returned (encode_event
       \<lparr>ContentUri = videoContentUriBase @ ''abc-1'',
        Payload = encode_payload
          \<lparr>UUID = ''abc-1'',
           Identifiers = [\<lparr>Authority = brigthcoveAuthority, IdentifierValue = ''999''\<rparr>],
           PublishedDate = ''2020-01-01T00:00:00Z'',
           MediaType = viodeMediaTypeBase,
           PublishReference = ''req-1'',
           payload.LastModified = ''ts-1''\<rparr>,
        publicationEvent.LastModified = ''ts-1''\<rparr>)) \<and>
   mapBrightcoveVideo aMapper
     [''uuid'' \<mapsto> JString ''abc-1'', ''id'' \<mapsto> JString ''999'',
      ''updated_at'' \<mapsto> JString ''2020-01-01T00:00:00Z'',
      ''name'' \<mapsto> JString (''a'' @ CHR ''.'' # ''b/c'')] ''req-1'' ''ts-1''
   \<noteq> ([], Returned (encode_event
       \<lparr>ContentUri = videoContentUriBase @ ''abc-1'',
        Payload = encode_payload
          \<lparr>UUID = ''abc-1'',
           Identifiers = [\<lparr>Authority = brigthcoveAuthority, IdentifierValue = ''999''\<rparr>],
           PublishedDate = ''2020-01-01T00:00:00Z'',
           MediaType = viodeMediaTypeBase @ ''b/c'',
           PublishReference = ''req-1'',
           payload.LastModified = ''ts-1''\<rparr>,
        publicationEvent.LastModified = ''ts-1''\<rparr>))"
  by (simp add: mapBrightcoveVideo_def assert_string_def Ext_def IsPathSeparator_def
      TrimPrefix_def Marshal_payload_def Marshal_event_def encode_event_def encode_payload_def
      encode_string_def encode_identifiers_def encode_identifier_def htmlSafe_def escape_def
      backslash_def dquote_def viodeMediaTypeBase_def videoContentUriBase_def brigthcoveAuthority_def)

text \<open>
  Claim C5, amended: when the required fields are non-empty strings and the name is
  \<open>stem.ext\<close>, where \<open>ext\<close> contains neither a dot nor the path separator \<^verbatim>\<open>/\<close>, the
  mapping succeeds, logs nothing, and the payload carries the media type \<^verbatim>\<open>video/\<close>
  followed by \<open>ext\<close> exactly as given: no dot in front, no change of case.
\<close>

theorem media_type_of_extension:
  assumes "r ''uuid'' = Some (JString uuid)" and "uuid \<noteq> []"
    and "r ''id'' = Some (JString ident)" and "ident \<noteq> []"
    and "r ''updated_at'' = Some (JString publishedDate)" and "publishedDate \<noteq> []"
    and "r ''name'' = Some (JString (stem @ CHR ''.'' # ext))"
    and "CHR ''.'' \<notin> set ext" and "CHR ''/'' \<notin> set ext"
  shows "mapBrightcoveVideo v r publishReference lastModified =
    ([], Returned (encode_event
       \<lparr>ContentUri = videoContentUriBase @ uuid,
        Payload = encode_payload
          \<lparr>UUID = uuid,
           Identifiers = [\<lparr>Authority = brigthcoveAuthority, IdentifierValue = ident\<rparr>],
           PublishedDate = publishedDate,
           MediaType = viodeMediaTypeBase @ ext,
           PublishReference = publishReference,
           payload.LastModified = lastModified\<rparr>,
        publicationEvent.LastModified = lastModified\<rparr>))"
  using assms
  by (simp add: mapBrightcoveVideo_def assert_string_def Ext_found TrimPrefix_dot
      Marshal_payload_def Marshal_event_def)

theorem media_type_of_extension_witness:
  "mapBrightcoveVideo aMapper
     [''uuid'' \<mapsto> JString ''abc-1'', ''id'' \<mapsto> JString ''999'',
      ''updated_at'' \<mapsto> JString ''2020-01-01T00:00:00Z'',
      ''name'' \<mapsto> JString (''clip'' @ CHR ''.'' # ''MP4'')] ''req-1'' ''ts-1'' =
    ([], Returned (encode_event
       \<lparr>ContentUri = videoContentUriBase @ ''abc-1'',
        Payload = encode_payload
          \<lparr>UUID = ''abc-1'',
           Identifiers = [\<lparr>Authority = brigthcoveAuthority, IdentifierValue = ''999''\<rparr>],
           PublishedDate = ''2020-01-01T00:00:00Z'',
           MediaType = viodeMediaTypeBase @ ''MP4'',
           PublishReference = ''req-1'',
           payload.LastModified = ''ts-1''\<rparr>,
        publicationEvent.LastModified = ''ts-1''\<rparr>))"
  by (rule media_type_of_extension [where uuid = "''abc-1''" and ident = "''999''"
        and publishedDate = "''2020-01-01T00:00:00Z''"]) simp_all

subsection \<open>Determinism\<close>


section \<open>The scenario of the specification\<close>

text \<open>
  Claim C1. On the record \<^verbatim>\<open>{"uuid":"abc-1","id":"999","updated_at":"2020-01-01T00:00:00Z",
  "name":"clip.mp4"}\<close> with publish reference \<^verbatim>\<open>req-1\<close> and last-modified stamp \<^verbatim>\<open>ts-1\<close>
  the mapping succeeds, logs nothing, and returns the serialized event \<open>scenarioEvent\<close>:
  its content URI is the base followed by \<^verbatim>\<open>abc-1\<close>, its stamp is \<^verbatim>\<open>ts-1\<close>, and its payload
  string decodes to \<open>scenarioPayload\<close>, with the one Brightcove identifier \<^verbatim>\<open>999\<close>, the
  published date, the media type \<^verbatim>\<open>video/mp4\<close>, \<^verbatim>\<open>req-1\<close> and \<^verbatim>\<open>ts-1\<close>. Decoding the bytes
  returned gives the event back.
\<close>

theorem scenario_maps:
  "mapBrightcoveVideo aMapper scenarioRecord ''req-1'' ''ts-1''
     = ([], Returned (encode_event scenarioEvent))
   \<and> Unmarshal_event (encode_event scenarioEvent) = Some scenarioEvent
   \<and> Unmarshal_payload (Payload scenarioEvent) = Some scenarioPayload"
  by code_simp

section \<open>Decoding what the mapper encoded\<close>

subsection \<open>Strings\<close>

text \<open>
  The escapes the encoder writes are read back to the bytes they stand for, and a
  well-formed UTF-8 sequence is recognised whatever follows it.
\<close>

lemma hexval_hex: "n < 16 \<Longrightarrow> hexval (hex n) = Some n"
proof -
  have "\<forall>n<16. hexval (hex n) = Some n"
    by (simp add: eval_nat_numeral All_less_Suc hex_def hexval_def between_def)
  then show "n < 16 \<Longrightarrow> hexval (hex n) = Some n" by blast
qed

lemma getu4_escape:
  assumes "k < 256"
  shows "getu4 (CHR 0x5C # CHR ''u'' # CHR ''0'' # CHR ''0'' # hex (k div 16) # hex (k mod 16) # rest)
         = Some k"
proof -
  have "k div 16 < 16" using assms by simp
  moreover have "k mod 16 < 16" by simp
  moreover have "hexval (CHR ''0'') = Some 0" by (simp add: hexval_def between_def)
  ultimately show ?thesis
    by (simp add: hexval_hex backslash_def)
qed

lemma continuation_stable:
  "continuation k cs \<Longrightarrow> continuation k (take k cs @ ys)"
  by (induction k cs rule: continuation.induct) auto

lemma continuation_length:
  "continuation k cs \<Longrightarrow> k \<le> length cs"
  by (induction k cs rule: continuation.induct) auto

lemma second_then_stable:
  "second_then lo hi k cs \<Longrightarrow> second_then lo hi k (take (Suc k) cs @ ys)"
  by (cases cs) (auto simp: second_then_def dest: continuation_stable)

lemma second_then_length:
  "second_then lo hi k cs \<Longrightarrow> Suc k \<le> length cs"
  by (cases cs) (auto simp: second_then_def dest: continuation_length)

lemma rune_size_multibyte:
  assumes "rune_size c cs = Some n" and "\<not> (of_char c :: nat) < 0x80"
  obtains lo hi k where "lead c = Some (lo, hi, k)" and "second_then lo hi k cs" and "n = k + 2"
  using assms
  by (auto simp: rune_size_def between_def split: if_splits option.splits)

lemma rune_size_stable:
  assumes "rune_size c cs = Some n" and "\<not> (of_char c :: nat) < 0x80"
  shows "rune_size c (take (n - 1) cs @ ys) = Some n"
proof -
  from assms obtain lo hi k
    where l: "lead c = Some (lo, hi, k)" and s: "second_then lo hi k cs" and n: "n = k + 2"
    by (rule rune_size_multibyte)
  from assms(2) have "\<not> between 0x00 0x7F c" by (simp add: between_def)
  with l n second_then_stable [OF s, of ys] show ?thesis
    by (simp add: rune_size_def)
qed

lemma rune_size_length:
  assumes "rune_size c cs = Some n" and "\<not> (of_char c :: nat) < 0x80"
  shows "n - 1 \<le> length cs"
proof -
  from assms obtain lo hi k
    where "second_then lo hi k cs" and "n = k + 2"
    by (rule rune_size_multibyte)
  then show ?thesis using second_then_length [of lo hi k cs] by simp
qed

lemma rune_size_take:
  assumes "rune_size c cs = Some n" and "\<not> (of_char c :: nat) < 0x80"
  shows "take (n - 1) (take (n - 1) cs @ ys) = take (n - 1) cs"
    and "drop (n - 1) (take (n - 1) cs @ ys) = ys"
  using rune_size_length [OF assms] by simp_all

lemma high_not_special:
  assumes "\<not> (of_char c :: nat) < 0x80"
  shows "c \<noteq> dquote" and "c \<noteq> backslash" and "\<not> (of_char c :: nat) < 0x20"
  using assms by (auto simp: dquote_def backslash_def)

lemma unquote_plain:
  assumes "htmlSafe c" and "(of_char c :: nat) < 0x80"
  shows "unquote_chars (c # xs) = prepend [c] (unquote_chars xs)"
  using assms by (simp add: htmlSafe_def)

lemma unquote_short:
  assumes "unescape e = Some d" and "e \<noteq> CHR ''u''"
  shows "unquote_chars (backslash # e # xs) = prepend [d] (unquote_chars xs)"
  using assms by (simp add: dquote_def backslash_def)

lemma unquote_u4:
  assumes "getu4 (backslash # CHR ''u'' # h1 # h2 # h3 # h4 # xs) = Some rr"
    and "\<not> IsSurrogate rr"
  shows "unquote_chars (backslash # CHR ''u'' # h1 # h2 # h3 # h4 # xs)
         = prepend (EncodeRune rr) (unquote_chars xs)"
proof -
  have "backslash \<noteq> dquote" by (simp add: dquote_def backslash_def)
  with assms show ?thesis by simp
qed

lemma unquote_multibyte:
  assumes "\<not> (of_char c :: nat) < 0x80" and "rune_size c xs = Some n"
  shows "unquote_chars (c # xs) = prepend (c # take (n - 1) xs) (unquote_chars (drop (n - 1) xs))"
  using assms high_not_special [OF assms(1)] by simp

lemma EncodeRune_ascii: "(of_char c :: nat) < 0x80 \<Longrightarrow> EncodeRune (of_char c) = [c]"
  by (simp add: EncodeRune_def)

lemma EncodeRune_replacement: "EncodeRune replacement = [CHR 0xEF, CHR 0xBF, CHR 0xBD]"
  by (simp add: EncodeRune_def replacement_def IsSurrogate_def char_of_eq_iff)

lemma EncodeRune_2028: "EncodeRune 0x2028 = [CHR 0xE2, CHR 0x80, CHR 0xA8]"
  by (simp add: EncodeRune_def IsSurrogate_def char_of_eq_iff)

lemma EncodeRune_2029: "EncodeRune 0x2029 = [CHR 0xE2, CHR 0x80, CHR 0xA9]"
  by (simp add: EncodeRune_def IsSurrogate_def char_of_eq_iff)

lemma getu4_fffd:
  "getu4 (backslash # CHR ''u'' # CHR ''f'' # CHR ''f'' # CHR ''f'' # CHR ''d'' # xs) = Some replacement"
  by (simp add: hexval_def between_def replacement_def)

lemma getu4_2028:
  "getu4 (backslash # CHR ''u'' # CHR ''2'' # CHR ''0'' # CHR ''2'' # CHR ''8'' # xs) = Some 0x2028"
  by (simp add: hexval_def between_def)

lemma getu4_2029:
  "getu4 (backslash # CHR ''u'' # CHR ''2'' # CHR ''0'' # CHR ''2'' # CHR ''9'' # xs) = Some 0x2029"
  by (simp add: hexval_def between_def)

lemma unquote_escape:
  assumes "(of_char c :: nat) < 0x80" and "\<not> htmlSafe c"
  shows "unquote_chars (escape c @ xs) = prepend [c] (unquote_chars xs)"
proof -
  consider (q) "c = backslash \<or> c = dquote"
    | (n) "c = CHR 0x0A" | (r) "c = CHR 0x0D" | (t) "c = CHR 0x09"
    | (u) "c \<noteq> backslash" "c \<noteq> dquote" "c \<noteq> CHR 0x0A" "c \<noteq> CHR 0x0D" "c \<noteq> CHR 0x09"
    by blast
  then show ?thesis
  proof cases
    case q
    then have "unescape c = Some c" and "c \<noteq> CHR ''u''"
      by (auto simp: unescape_def backslash_def dquote_def)
    from unquote_short [OF this] q show ?thesis by (auto simp: escape_def)
  next
    case n
    have "unescape (CHR ''n'') = Some (CHR 0x0A)"
      by (simp add: unescape_def backslash_def dquote_def)
    from unquote_short [OF this] n show ?thesis
      by (simp add: escape_def backslash_def dquote_def)
  next
    case r
    have "unescape (CHR ''r'') = Some (CHR 0x0D)"
      by (simp add: unescape_def backslash_def dquote_def)
    from unquote_short [OF this] r show ?thesis
      by (simp add: escape_def backslash_def dquote_def)
  next
    case t
    have "unescape (CHR ''t'') = Some (CHR 0x09)"
      by (simp add: unescape_def backslash_def dquote_def)
    from unquote_short [OF this] t show ?thesis
      by (simp add: escape_def backslash_def dquote_def)
  next
    case u
    have k: "(of_char c :: nat) < 256" using assms(1) by simp
    have g: "getu4 (backslash # CHR ''u'' # CHR ''0'' # CHR ''0'' # hex (of_char c div 16)
               # hex (of_char c mod 16) # xs) = Some (of_char c)"
      using getu4_escape [OF k] by (simp add: backslash_def)
    have s: "\<not> IsSurrogate (of_char c)" using assms(1) by (simp add: IsSurrogate_def)
    from unquote_u4 [OF g s] u show ?thesis
      by (simp add: escape_def EncodeRune_ascii [OF assms(1)])
  qed
qed

text \<open>
  Reading an encoded string back gives the string coerced to valid UTF-8, and what the
  encoder writes is valid UTF-8 already.
\<close>

lemma prepend_result: "prepend xs (Some (s, rest)) = Some (xs @ s, rest)"
  by (simp add: prepend_def)

lemma unquote_encode_chars:
  "unquote_chars (encode_chars s @ dquote # rest) = Some (coerce_utf8 s, rest)"
proof (induction s rule: encode_chars.induct)
  case 1
  show ?case by simp
next
  case (2 c cs)
  show ?case
  proof (cases "(of_char c :: nat) < 0x80")
    case ascii: True
    note IH = "2.IH"(1) [OF ascii]
    show ?thesis
    proof (cases "htmlSafe c")
      case True
      from unquote_plain [OF True ascii, of "encode_chars cs @ dquote # rest"] IH ascii True
      show ?thesis by (simp add: prepend_result del: unquote_chars.simps)
    next
      case False
      from unquote_escape [OF ascii False, of "encode_chars cs @ dquote # rest"] IH ascii False
      show ?thesis by (simp add: prepend_result del: unquote_chars.simps)
    qed
  next
    case high: False
    show ?thesis
    proof (cases "rune_size c cs")
      case None
      note IH = "2.IH"(2) [OF high None]
      have g: "getu4 (backslash # CHR ''u'' # CHR ''f'' # CHR ''f'' # CHR ''f'' # CHR ''d''
                  # encode_chars cs @ dquote # rest) = Some replacement"
        by (rule getu4_fffd)
      have s: "\<not> IsSurrogate replacement" by (simp add: IsSurrogate_def replacement_def)
      from unquote_u4 [OF g s] IH high None show ?thesis
        by (simp add: prepend_result EncodeRune_replacement del: unquote_chars.simps)
    next
      case (Some n)
      note IH = "2.IH"(3) [OF high Some]
      let ?seq = "c # take (n - 1) cs"
      let ?tail = "encode_chars (drop (n - 1) cs) @ dquote # rest"
      show ?thesis
      proof (cases "?seq = [CHR 0xE2, CHR 0x80, CHR 0xA8]")
        case ls: True
        have g: "getu4 (backslash # CHR ''u'' # CHR ''2'' # CHR ''0'' # CHR ''2'' # CHR ''8'' # ?tail)
                 = Some 0x2028"
          by (rule getu4_2028)
        have s: "\<not> IsSurrogate 0x2028" by (simp add: IsSurrogate_def)
        from unquote_u4 [OF g s] IH high Some ls show ?thesis
          by (simp add: prepend_result EncodeRune_2028 del: unquote_chars.simps)
      next
        case nls: False
        show ?thesis
        proof (cases "?seq = [CHR 0xE2, CHR 0x80, CHR 0xA9]")
          case ps: True
          have g: "getu4 (backslash # CHR ''u'' # CHR ''2'' # CHR ''0'' # CHR ''2'' # CHR ''9'' # ?tail)
                   = Some 0x2029"
            by (rule getu4_2029)
          have s: "\<not> IsSurrogate 0x2029" by (simp add: IsSurrogate_def)
          from unquote_u4 [OF g s] IH high Some nls ps show ?thesis
            by (simp add: prepend_result EncodeRune_2029 del: unquote_chars.simps)
        next
          case nps: False
          have enc: "encode_chars (c # cs) = ?seq @ encode_chars (drop (n - 1) cs)"
            using high Some nls nps by simp
          have co: "coerce_utf8 (c # cs) = ?seq @ coerce_utf8 (drop (n - 1) cs)"
            using high Some by simp
          have st: "rune_size c (take (n - 1) cs @ ?tail) = Some n"
            by (rule rune_size_stable [OF Some high])
          have "unquote_chars (c # take (n - 1) cs @ ?tail)
                = prepend (c # take (n - 1) (take (n - 1) cs @ ?tail))
                    (unquote_chars (drop (n - 1) (take (n - 1) cs @ ?tail)))"
            by (rule unquote_multibyte [OF high st])
          also have "\<dots> = prepend ?seq (unquote_chars ?tail)"
            by (simp only: rune_size_take [OF Some high])
          also have "\<dots> = Some (?seq @ coerce_utf8 (drop (n - 1) cs), rest)"
            by (simp only: IH prepend_result)
          finally show ?thesis
            by (simp only: enc co append_assoc append_Cons)
        qed
      qed
    qed
  qed
qed

lemma coerce_encode_chars:
  "coerce_utf8 (encode_chars s @ t) = encode_chars s @ coerce_utf8 t"
proof (induction s rule: encode_chars.induct)
  case 1
  show ?case by simp
next
  case (2 c cs)
  show ?case
  proof (cases "(of_char c :: nat) < 0x80")
    case ascii: True
    note IH = "2.IH"(1) [OF ascii]
    show ?thesis
    proof (cases "htmlSafe c")
      case True
      with IH ascii show ?thesis by simp
    next
      case False
      have "hex n = ''0123456789abcdef'' ! n" for n by (simp add: hex_def)
      have h: "(of_char (hex n) :: nat) < 0x80" if "n < 16" for n
      proof -
        have "\<forall>n<16. (of_char (hex n) :: nat) < 0x80"
          by (simp add: eval_nat_numeral All_less_Suc hex_def)
        with that show ?thesis by blast
      qed
      have "(of_char c :: nat) div 16 < 16" using ascii by simp
      from h [OF this] h [of "of_char c mod 16"] IH ascii False show ?thesis
        by (simp add: escape_def backslash_def dquote_def)
    qed
  next
    case high: False
    show ?thesis
    proof (cases "rune_size c cs")
      case None
      with "2.IH"(2) [OF high None] high show ?thesis by (simp add: backslash_def)
    next
      case (Some n)
      note IH = "2.IH"(3) [OF high Some]
      let ?tail = "encode_chars (drop (n - 1) cs) @ t"
      have st: "rune_size c (take (n - 1) cs @ ?tail) = Some n"
        by (rule rune_size_stable [OF Some high])
      from st rune_size_take [OF Some high, of ?tail] IH high Some show ?thesis
        by (simp add: backslash_def)
    qed
  qed
qed

lemma unquote_encode_chars':
  "unquote_chars (encode_chars s @ CHR 0x22 # rest) = Some (coerce_utf8 s, rest)"
  using unquote_encode_chars [of s rest] by (simp add: dquote_def)

subsection \<open>Payload and event\<close>

lemma parse_payload:
  "value_at []
     (encode_payload \<lparr>UUID = u, Identifiers = [\<lparr>Authority = a, IdentifierValue = iv\<rparr>],
        PublishedDate = d, MediaType = m, PublishReference = r, payload.LastModified = l\<rparr>)
   = Some (JObject
       [(''uuid'', JString (coerce_utf8 u)),
        (''identifiers'', JArray [JObject [(''authority'', JString (coerce_utf8 a)),
                                          (''identifierValue'', JString (coerce_utf8 iv))]]),
        (''publishedDate'', JString (coerce_utf8 d)),
        (''mediaType'', JString (coerce_utf8 m)),
        (''publishReference'', JString (coerce_utf8 r)),
        (''lastModified'', JString (coerce_utf8 l))], [])"
  by (simp add: encode_payload_def encode_identifiers_def encode_identifier_def encode_string_def
      dquote_def backslash_def skip_ws_def isSpace_def unquote_encode_chars' prepend_def)

lemma parse_event:
  "value_at []
     (encode_event \<lparr>ContentUri = c, Payload = p, publicationEvent.LastModified = l\<rparr>)
   = Some (JObject
       [(''contentUri'', JString (coerce_utf8 c)),
        (''payload'', JString (coerce_utf8 p)),
        (''lastModified'', JString (coerce_utf8 l))], [])"
  by (simp add: encode_event_def encode_string_def dquote_def
      backslash_def skip_ws_def isSpace_def unquote_encode_chars' prepend_def)

lemma members_into_identifier_encoded:
  "members_into_identifier [(''authority'', JString a), (''identifierValue'', JString iv)] i
   = Some \<lparr>Authority = a, IdentifierValue = iv\<rparr>"
  by (simp add: into_string_def caseMask_def between_def char_of_eq_iff)

lemma members_into_payload_encoded:
  "members_into_payload
     [(''uuid'', JString u),
      (''identifiers'', JArray [JObject [(''authority'', JString a), (''identifierValue'', JString iv)]]),
      (''publishedDate'', JString d),
      (''mediaType'', JString m),
      (''publishReference'', JString r),
      (''lastModified'', JString l)] zero_payload
   = Some \<lparr>UUID = u, Identifiers = [\<lparr>Authority = a, IdentifierValue = iv\<rparr>],
        PublishedDate = d, MediaType = m, PublishReference = r, payload.LastModified = l\<rparr>"
  by (simp add: into_string_def into_identifiers_def into_identifier_def zero_payload_def
      members_into_identifier_encoded caseMask_def between_def char_of_eq_iff
      del: members_into_identifier.simps)

lemma members_into_event_encoded:
  "members_into_event
     [(''contentUri'', JString c), (''payload'', JString p), (''lastModified'', JString l)] zero_event
   = Some \<lparr>ContentUri = c, Payload = p, publicationEvent.LastModified = l\<rparr>"
  by (simp add: into_string_def zero_event_def caseMask_def between_def char_of_eq_iff)

lemma Unmarshal_payload_encoded:
  "Unmarshal_payload
     (encode_payload \<lparr>UUID = u, Identifiers = [\<lparr>Authority = a, IdentifierValue = iv\<rparr>],
        PublishedDate = d, MediaType = m, PublishReference = r, payload.LastModified = l\<rparr>)
   = Some \<lparr>UUID = coerce_utf8 u,
        Identifiers = [\<lparr>Authority = coerce_utf8 a, IdentifierValue = coerce_utf8 iv\<rparr>],
        PublishedDate = coerce_utf8 d, MediaType = coerce_utf8 m,
        PublishReference = coerce_utf8 r, payload.LastModified = coerce_utf8 l\<rparr>"
  unfolding Unmarshal_payload_def parse_document_def parse_payload
  by (simp add: skip_ws_def members_into_payload_encoded del: members_into_payload.simps)

lemma Unmarshal_event_encoded:
  "Unmarshal_event
     (encode_event \<lparr>ContentUri = c, Payload = p, publicationEvent.LastModified = l\<rparr>)
   = Some \<lparr>ContentUri = coerce_utf8 c, Payload = coerce_utf8 p,
        publicationEvent.LastModified = coerce_utf8 l\<rparr>"
  unfolding Unmarshal_event_def parse_document_def parse_event
  by (simp add: skip_ws_def members_into_event_encoded del: members_into_event.simps)

lemma coerce_encode_chars':
  "coerce_utf8 (encode_chars s @ CHR 0x22 # t) = encode_chars s @ CHR 0x22 # coerce_utf8 t"
  by (simp add: coerce_encode_chars)

lemma coerce_encode_payload:
  "coerce_utf8
     (encode_payload \<lparr>UUID = u, Identifiers = [\<lparr>Authority = a, IdentifierValue = iv\<rparr>],
        PublishedDate = d, MediaType = m, PublishReference = r, payload.LastModified = l\<rparr>)
   = encode_payload \<lparr>UUID = u, Identifiers = [\<lparr>Authority = a, IdentifierValue = iv\<rparr>],
        PublishedDate = d, MediaType = m, PublishReference = r, payload.LastModified = l\<rparr>"
  by (simp add: encode_payload_def encode_identifiers_def encode_identifier_def encode_string_def
      dquote_def coerce_encode_chars')

lemma coerce_contentUri:
  "coerce_utf8 (videoContentUriBase @ u) = videoContentUriBase @ coerce_utf8 u"
  by (simp add: videoContentUriBase_def)

lemma mapped_shape:
  assumes "mapBrightcoveVideo v r publishReference lastModified = (logs, Returned out)"
  obtains uuid ident publishedDate mediaType where
    "out = encode_event
       \<lparr>ContentUri = videoContentUriBase @ uuid,
        Payload = encode_payload
          \<lparr>UUID = uuid,
           Identifiers = [\<lparr>Authority = brigthcoveAuthority, IdentifierValue = ident\<rparr>],
           PublishedDate = publishedDate,
           MediaType = mediaType,
           PublishReference = publishReference,
           payload.LastModified = lastModified\<rparr>,
        publicationEvent.LastModified = lastModified\<rparr>"
  using assms
  by (auto simp: mapBrightcoveVideo_def Marshal_payload_def Marshal_event_def Let_def
      split: option.splits if_splits)

text \<open>
  Claim C6. Whenever the mapper succeeds, the bytes it returns decode to an event whose
  payload string decodes to a payload, and the content URI of that event is the fixed base
  followed by the uuid of that payload. (A uuid that is not valid UTF-8 is coerced in both
  places alike.)
\<close>

theorem payload_uuid_matches_contentUri:
  assumes "mapBrightcoveVideo v r publishReference lastModified = (logs, Returned out)"
  shows "\<exists>e p. Unmarshal_event out = Some e \<and> Unmarshal_payload (Payload e) = Some p
           \<and> ContentUri e = videoContentUriBase @ UUID p"
proof -
  from assms obtain uuid ident publishedDate mediaType where
    out: "out = encode_event
       \<lparr>ContentUri = videoContentUriBase @ uuid,
        Payload = encode_payload
          \<lparr>UUID = uuid,
           Identifiers = [\<lparr>Authority = brigthcoveAuthority, IdentifierValue = ident\<rparr>],
           PublishedDate = publishedDate,
           MediaType = mediaType,
           PublishReference = publishReference,
           payload.LastModified = lastModified\<rparr>,
        publicationEvent.LastModified = lastModified\<rparr>"
    by (rule mapped_shape)
  show ?thesis
    unfolding out Unmarshal_event_encoded
    by (simp add: coerce_encode_payload Unmarshal_payload_encoded coerce_contentUri)
qed

theorem payload_uuid_matches_contentUri_witness:
  "mapBrightcoveVideo aMapper scenarioRecord ''req-1'' ''ts-1''
     = ([], Returned (encode_event scenarioEvent))
   \<and> (\<exists>e p. Unmarshal_event (encode_event scenarioEvent) = Some e
          \<and> Unmarshal_payload (Payload e) = Some p
          \<and> ContentUri e = videoContentUriBase @ UUID p)"
proof -
  have h: "mapBrightcoveVideo aMapper scenarioRecord ''req-1'' ''ts-1''
             = ([], Returned (encode_event scenarioEvent))"
    by code_simp
  from h payload_uuid_matches_contentUri [OF h] show ?thesis by simp
qed

section \<open>Properties of the delivery adapters\<close>

subsection \<open>The broker adapter\<close>

text \<open>
  Claim C7. A message whose \<^verbatim>\<open>Origin-System-Id\<close> header is not the Brightcove origin (or
  is missing) is dropped: \<^verbatim>\<open>consume\<close> returns without a logger call, without a message for
  the producer and without a panic, whatever the body is. The witness has the body
  \<^verbatim>\<open>{}\<close>, on which a mapping, had it been attempted, would have panicked, as the lemma
  after it shows for the same message under the Brightcove origin.
\<close>

theorem consume_drops_foreign_origin:
  assumes "header (Headers m) ''Origin-System-Id'' \<noteq> brightcoveOrigin"
  shows "consume v m = (\<lparr>logged = [], sent = []\<rparr>, Returned ())"
  using assms by (simp add: consume_def)

theorem consume_drops_foreign_origin_witness:
  "header (Headers \<lparr>Headers = scenarioHeaders(''Origin-System-Id'' \<mapsto> ''http://cmdb.ft.com/systems/methode-web-pub''),
                    Body = ''{}''\<rparr>) ''Origin-System-Id'' \<noteq> brightcoveOrigin
   \<and> consume aMapper \<lparr>Headers = scenarioHeaders(''Origin-System-Id'' \<mapsto> ''http://cmdb.ft.com/systems/methode-web-pub''),
                       Body = ''{}''\<rparr>
       = (\<lparr>logged = [], sent = []\<rparr>, Returned ())"
proof -
  have h: "header (Headers \<lparr>Headers = scenarioHeaders(''Origin-System-Id'' \<mapsto> ''http://cmdb.ft.com/systems/methode-web-pub''),
                    Body = ''{}''\<rparr>) ''Origin-System-Id'' \<noteq> brightcoveOrigin"
    by (simp add: header_def brightcoveOrigin_def)
  from h consume_drops_foreign_origin [OF h, of aMapper] show ?thesis by simp
qed

lemma brightcove_empty_object_panics:
  "consume aMapper \<lparr>Headers = scenarioHeaders(''Origin-System-Id'' \<mapsto> brightcoveOrigin), Body = ''{}''\<rparr>
   = (\<lparr>logged = [], sent = []\<rparr>, Panicked)"
proof -
  have "mapMessage aMapper
          \<lparr>Headers = scenarioHeaders(''Origin-System-Id'' \<mapsto> brightcoveOrigin), Body = ''{}''\<rparr>
        = ([], Panicked)"
    by code_simp
  then show ?thesis
    by (simp add: consume_def header_def)
qed

text \<open>
  Claim C8 (the code departs from it). A message that passes the filter and maps is to be
  handed to the producer for the output topic, with the inbound headers. The source has
  this call commented out: on the scenario's message under the Brightcove origin,
  \<^verbatim>\<open>consume\<close> logs the event and sends nothing. The lemma after it says so of every message.
\<close>

theorem consume_sends_nothing:
  "consume aMapper \<lparr>Headers = scenarioHeaders(''Origin-System-Id'' \<mapsto> brightcoveOrigin),
                     Body = scenarioBody\<rparr>
   = (\<lparr>logged = [(infoLogger, ''Sending %v'', [BytesArg (encode_event scenarioEvent)])],
       sent = []\<rparr>, Returned ())"
proof -
  have "mapMessage aMapper
          \<lparr>Headers = scenarioHeaders(''Origin-System-Id'' \<mapsto> brightcoveOrigin),
           Body = scenarioBody\<rparr>
        = ([], Returned (encode_event scenarioEvent))"
    by code_simp
  then show ?thesis
    by (simp add: consume_def header_def)
qed

lemma consume_never_sends: "sent (fst (consume v m)) = []"
  by (simp add: consume_def split: prod.splits outcome.splits)

subsection \<open>The HTTP adapter\<close>

text \<open>
  Claim C9 (the code departs from it). With both headers present, a body that is a
  well-formed object but lacks a required field is to be answered with status 400. On the
  body below, which has no \<^verbatim>\<open>uuid\<close>, the handler panics in \<^verbatim>\<open>mapBrightcoveVideo\<close> before it
  writes a status.
\<close>

theorem mapHandler_absent_uuid_panics:
  \<open>mapHandler aMapper freshResponse
     \<lparr>Header = scenarioHeaders,
      Body = ''{"id":"999","updated_at":"2020-01-01T00:00:00Z","name":"clip.mp4"}''\<rparr>
   = ([], freshResponse, Panicked)\<close>
  by code_simp

text \<open>
  The rest of the claim on this adapter: a body that does not decode is answered with 400
  and no body, a request that maps with 200 and the serialized event, a record with an
  empty required field with 400. The body \<^verbatim>\<open>null\<close>, which is no object, decodes without
  error to a nil map and meets the same panic; bytes behind the first value of the body
  are not read.
\<close>

lemma mapHandler_null_body_panics:
  "mapHandler aMapper freshResponse \<lparr>Header = scenarioHeaders, Body = ''null''\<rparr>
   = ([], freshResponse, Panicked)"
  by code_simp

lemma mapHandler_undecodable_body:
  assumes "Decode_map (request.Body r) = None"
  shows "mapHandler v freshResponse r
         = ([], \<lparr>status = Some StatusBadRequest, body = []\<rparr>, Returned ())"
  using assms by (simp add: mapHandler_def WriteHeader_def freshResponse_def)

lemma mapHandler_success:
  assumes "Decode_map (request.Body r) = Some bv"
    and "header (Header r) ''X-Request-Id'' \<noteq> []"
    and "header (Header r) ''Message-Timestamp'' \<noteq> []"
    and "mapBrightcoveVideo v bv (header (Header r) ''X-Request-Id'')
           (header (Header r) ''Message-Timestamp'') = (logs, Returned bytes)"
  shows "mapHandler v freshResponse r
         = (logs, \<lparr>status = Some StatusOK, body = bytes\<rparr>, Returned ())"
  using assms by (simp add: mapHandler_def Write_def WriteHeader_def freshResponse_def)

lemma mapHandler_scenario:
  "mapHandler aMapper freshResponse \<lparr>Header = scenarioHeaders, Body = scenarioBody\<rparr>
   = ([], \<lparr>status = Some 200, body = encode_event scenarioEvent\<rparr>, Returned ())"
  by code_simp

lemma mapHandler_ignores_trailing_bytes:
  "mapHandler aMapper freshResponse \<lparr>Header = scenarioHeaders, Body = scenarioBody @ '' trailing''\<rparr>
   = ([], \<lparr>status = Some 200, body = encode_event scenarioEvent\<rparr>, Returned ())"
  by code_simp

lemma mapHandler_empty_uuid:
  \<open>mapHandler aMapper freshResponse
     \<lparr>Header = scenarioHeaders,
      Body = ''{"uuid":"","id":"999","updated_at":"2020-01-01T00:00:00Z","name":"clip.mp4"}''\<rparr>
   = ([], \<lparr>status = Some 400, body = []\<rparr>, Returned ())\<close>
  by code_simp

end
